theory Spec2Isabelle
  imports Complex_Main
begin

section \<open>Transaction records and the world the scripts run in\<close>

text \<open>
  A row of \<^verbatim>\<open>large_transactions.parquet\<close>, with the columns of the \<^verbatim>\<open>data\<close> dictionary of
  \<^verbatim>\<open>generate_dummy_data.py\<close>. Integer columns are unbounded integers (no query below
  leaves the 64-bit range of the generated data), \<^verbatim>\<open>transaction_date\<close> is a timestamp
  in microseconds since the epoch, and the DOUBLE column \<^verbatim>\<open>price_per_item\<close> is an exact
  rational: sums, products and roundings below are the exact ones, not their
  IEEE-754 approximations. No column holds a null.
\<close>

record transaction =
  transaction_id :: int
  product_id :: int
  customer_id :: int
  transaction_date :: int
  quantity :: int
  price_per_item :: rat
  store_location :: string
  product_category :: string

datatype py_error = ValueError | FileExistsError | IOError

text \<open>How a script run ends: it falls off its end, calls \<^verbatim>\<open>exit()\<close>, or an exception
  nobody catches ends it.\<close>

datatype outcome = Finished | Exited | Raised py_error

definition digit_char :: "nat \<Rightarrow> char" where
  "digit_char n = ''0123456789'' ! (n mod 10)"

text \<open>Python's \<^verbatim>\<open>str\<close> of a natural number, as the f-strings of the scripts print it.\<close>

fun str_nat :: "nat \<Rightarrow> string" where
  "str_nat n = (if n < 10 then [digit_char n] else str_nat (n div 10) @ [digit_char (n mod 10)])"

declare str_nat.simps [simp del]

text \<open>A name in single quotes, as \<^verbatim>\<open>f"'{FILENAME}'"\<close> prints it.\<close>

definition quoted :: "string \<Rightarrow> string" where
  "quoted s = CHR 0x27 # s @ [CHR 0x27]"

section \<open>Analysis tables, report files and the filesystem\<close>

text \<open>
  An analysis table is a pandas DataFrame: an index length and an ordered sequence of
  named, typed columns. The column types are the ones the two scripts can meet
  (timedelta, complex and extension types are outside the model); \<^verbatim>\<open>None\<close> is a
  null (None, NaN or NaT) cell.
\<close>

datatype dtype = Int64 | Float64 | Bool | Object | Category | Datetime64

datatype val = IntV int | FloatV rat | BoolV bool | StrV string | TimeV int

record column =
  name :: string
  dtype :: dtype
  vals :: "val option list"

record dataframe =
  index_length :: nat
  columns :: "column list"

text \<open>One \<^verbatim>\<open>f.write\<close> of the summary file, or several that belong together. Of a
  \<^verbatim>\<open>describe()\<close> table the model keeps which columns it has and their counts (for a
  categorical column also the number of distinct values), not the other statistics.\<close>

datatype summary_item =
    ReportTitle string
  | ShapeOfDataset nat nat
  | DataTypesAndNonNull "(string \<times> nat \<times> dtype) list"
  | NumericalHeading
  | NumericalStatistics "(string \<times> nat) list"
  | CategoricalHeading
  | CategoricalStatistics "(string \<times> nat \<times> nat) list"
  | NoCategoricalColumns

text \<open>A figure saved by \<^verbatim>\<open>plt.savefig\<close>: the bar chart of the missing-value counts,
  the histogram with boxplot of a column, the count plot of a column (with its number
  of bars), the heatmap of the correlation matrix of the given columns with its
  annotation format.\<close>

datatype chart =
    MissingValuesBar "(string \<times> nat) list"
  | HistogramBoxplot string
  | CountPlot string nat
  | CorrelationHeatmap "string list" string

text \<open>What is on disk under a path.\<close>

datatype content =
    Parquet "transaction list"
  | Directory
  | SummaryText "summary_item list"
  | Png chart

type_synonym filesystem = "string \<rightharpoonup> content"

text \<open>What a script does to the outside, in order.\<close>

datatype event =
    Print string
  | Write string content
  | MakeDirs string
  | Connect
  | Execute string
  | Close

definition os_path_exists :: "string \<Rightarrow> filesystem \<Rightarrow> bool" where
  "os_path_exists p fs \<longleftrightarrow> fs p \<noteq> None"

definition os_path_join :: "string \<Rightarrow> string \<Rightarrow> string" where
  "os_path_join d f = d @ ''/'' @ f"

fun apply_event :: "filesystem \<Rightarrow> event \<Rightarrow> filesystem" where
  "apply_event fs (Write p f) = fs(p \<mapsto> f)"
| "apply_event fs (MakeDirs p) = fs(p \<mapsto> Directory)"
| "apply_event fs e = fs"

definition apply_events :: "filesystem \<Rightarrow> event list \<Rightarrow> filesystem" where
  "apply_events fs es = foldl apply_event fs es"

fun is_write :: "event \<Rightarrow> bool" where
  "is_write (Write p f) = True"
| "is_write e = False"

fun is_execute :: "event \<Rightarrow> bool" where
  "is_execute (Execute q) = True"
| "is_execute e = False"

section \<open>The Dataset Generator (generate\_dummy\_data.py)\<close>

definition NUM_ROWS :: nat where
  "NUM_ROWS = 10000000"

definition FILENAME :: string where
  "FILENAME = ''large_transactions.parquet''"

text \<open>
  The arrays the library calls of the \<^verbatim>\<open>data\<close> dictionary return in one run. The
  calls are random, so the generator is a function of what they returned; what
  numpy documents about each call is the predicate of the same name below.
\<close>

record samples =
  randint_product_id :: "int list"
  randint_customer_id :: "int list"
  date_time_this_decade :: "int list"
  randint_quantity :: "int list"
  uniform_price :: "rat list"
  choice_store_location :: "string list"
  choice_product_category :: "string list"

text \<open>\<^verbatim>\<open>np.random.randint(low, high, size)\<close>: \<^verbatim>\<open>size\<close> integers from \<^verbatim>\<open>low\<close> (inclusive) to
  \<^verbatim>\<open>high\<close> (exclusive).\<close>

definition np_random_randint :: "int \<Rightarrow> int \<Rightarrow> nat \<Rightarrow> int list \<Rightarrow> bool" where
  "np_random_randint low high n xs \<longleftrightarrow>
     length xs = n \<and> list_all (\<lambda>x. low \<le> x \<and> x < high) xs"

text \<open>\<^verbatim>\<open>np.random.uniform(low, high, size)\<close>: \<^verbatim>\<open>size\<close> numbers of the interval from
  \<^verbatim>\<open>low\<close> to \<^verbatim>\<open>high\<close>; numpy documents that rounding may return \<^verbatim>\<open>high\<close> itself, so
  the upper end is allowed.\<close>

definition np_random_uniform :: "rat \<Rightarrow> rat \<Rightarrow> nat \<Rightarrow> rat list \<Rightarrow> bool" where
  "np_random_uniform low high n xs \<longleftrightarrow>
     length xs = n \<and> list_all (\<lambda>x. low \<le> x \<and> x \<le> high) xs"

text \<open>\<^verbatim>\<open>np.random.choice(a, size, p)\<close>: \<^verbatim>\<open>size\<close> elements of \<^verbatim>\<open>a\<close>. The weights \<^verbatim>\<open>p\<close>
  decide how often each is drawn, not which can be drawn, and are left out.\<close>

definition np_random_choice :: "string list \<Rightarrow> nat \<Rightarrow> string list \<Rightarrow> bool" where
  "np_random_choice a n xs \<longleftrightarrow> length xs = n \<and> list_all (\<lambda>x. x \<in> set a) xs"

definition store_locations :: "string list" where
  "store_locations = [''New York'', ''London'', ''Online'', ''Tokyo'', ''Sydney'']"

definition product_categories :: "string list" where
  "product_categories = [''Electronics'', ''Apparel'', ''Groceries'', ''Books'', ''Home Goods'']"

text \<open>The calls of lines 21 to 27 with their arguments: \<^verbatim>\<open>s\<close> is a possible result of
  one run that asks for \<^verbatim>\<open>n\<close> rows.\<close>

definition library_calls :: "nat \<Rightarrow> samples \<Rightarrow> bool" where
  "library_calls n s \<longleftrightarrow>
     np_random_randint 1000 2000 n (randint_product_id s) \<and>
     np_random_randint 10000 20000 n (randint_customer_id s) \<and>
     length (date_time_this_decade s) = n \<and>
     np_random_randint 1 6 n (randint_quantity s) \<and>
     np_random_uniform (11 / 2) (50099 / 100) n (uniform_price s) \<and>
     np_random_choice store_locations n (choice_store_location s) \<and>
     np_random_choice product_categories n (choice_product_category s)"

text \<open>C's \<^verbatim>\<open>rint\<close>: the nearest integer, a tie going to the even one.\<close>

definition rint :: "rat \<Rightarrow> int" where
  "rint x = (let f = \<lfloor>x\<rfloor>; d = x - of_int f in
     if d < 1 / 2 then f else if 1 / 2 < d then f + 1
     else if even f then f else f + 1)"

text \<open>\<^verbatim>\<open>np.round(x, decimals)\<close>: scale, round to the nearest integer, scale back.\<close>

definition np_round :: "rat \<Rightarrow> nat \<Rightarrow> rat" where
  "np_round x decimals = of_int (rint (x * 10 ^ decimals)) / 10 ^ decimals"

text \<open>Row \<^verbatim>\<open>i\<close> of \<^verbatim>\<open>pd.DataFrame(data)\<close>: entry \<^verbatim>\<open>i\<close> of every array of \<^verbatim>\<open>data\<close>.\<close>

definition data_row :: "samples \<Rightarrow> nat \<Rightarrow> transaction" where
  "data_row s i =
     \<lparr>transaction_id = int i,
      product_id = randint_product_id s ! i,
      customer_id = randint_customer_id s ! i,
      transaction_date = date_time_this_decade s ! i,
      quantity = randint_quantity s ! i,
      price_per_item = np_round (uniform_price s ! i) 2,
      store_location = choice_store_location s ! i,
      product_category = choice_product_category s ! i\<rparr>"

text \<open>\<^verbatim>\<open>pd.DataFrame(data)\<close> for \<^verbatim>\<open>n\<close> rows (\<^verbatim>\<open>range(n)\<close> is the first column): pandas
  raises ValueError unless all arrays have the same length.\<close>

definition pd_DataFrame :: "nat \<Rightarrow> samples \<Rightarrow> py_error + transaction list" where
  "pd_DataFrame n s =
     (if length (randint_product_id s) = n \<and> length (randint_customer_id s) = n \<and>
         length (date_time_this_decade s) = n \<and> length (randint_quantity s) = n \<and>
         length (uniform_price s) = n \<and> length (choice_store_location s) = n \<and>
         length (choice_product_category s) = n
      then Inr (map (data_row s) [0..<n])
      else Inl ValueError)"

text \<open>The whole script, lines 6 to 35, for a row count \<^verbatim>\<open>n\<close> (the script's own is
  \<^const>\<open>NUM_ROWS\<close>), started on the filesystem \<^verbatim>\<open>fs\<close>.\<close>

definition generate_dummy_data :: "nat \<Rightarrow> samples \<Rightarrow> filesystem \<Rightarrow> event list \<times> outcome" where
  "generate_dummy_data n s fs =
     (let banner = Print ''Generating a large dummy dataset...'' in
      if os_path_exists FILENAME fs
      then ([banner, Print (quoted FILENAME @ '' already exists. Skipping generation.'')], Finished)
      else (case pd_DataFrame n s of
              Inl e \<Rightarrow> ([banner], Raised e)
            | Inr df \<Rightarrow>
                ([banner, Write FILENAME (Parquet df),
                  Print (''Successfully generated '' @ quoted FILENAME @ '' with '' @ str_nat n @ '' rows.'')],
                 Finished)))"

text \<open>The filesystem a run of the generator leaves.\<close>

definition after_generate :: "nat \<Rightarrow> samples \<Rightarrow> filesystem \<Rightarrow> filesystem" where
  "after_generate n s fs = apply_events fs (fst (generate_dummy_data n s fs))"

text \<open>The number of rows of the generator's output file, if it is there.\<close>

definition row_count :: "filesystem \<Rightarrow> nat option" where
  "row_count fs = (case fs FILENAME of Some (Parquet df) \<Rightarrow> Some (length df) | _ \<Rightarrow> None)"

text \<open>Sample arrays of a run that asks for two rows, used to instantiate the
  statements about the generator.\<close>

definition two_samples :: samples where
  "two_samples =
     \<lparr>randint_product_id = [1000, 1999],
      randint_customer_id = [10000, 19999],
      date_time_this_decade = [1600000000000000, 1700000000000000],
      randint_quantity = [1, 5],
      uniform_price = [11 / 2, 1234567 / 10000],
      choice_store_location = [''Tokyo'', ''Online''],
      choice_product_category = [''Books'', ''Apparel'']\<rparr>"

section \<open>The Query Stage (the SQL of automated\_eda\_duckdb.py)\<close>

text \<open>
  The two queries of the report path, as functions of the rows of the Parquet file
  they read. Each SQL construct is a function of its own, and a query is put
  together from them as its text is: the groups of GROUP BY are built in one pass
  over the rows, the aggregates of the SELECT list are computed per group, and
  ORDER BY sorts the result.
\<close>

definition DATA_FILE :: string where
  "DATA_FILE = ''large_transactions.parquet''"

definition OUTPUT_DIR :: string where
  "OUTPUT_DIR = ''eda_report_duckdb''"

text \<open>\<^verbatim>\<open>CAST(ts AS DATE)\<close>: the calendar day of a timestamp, as the number of days
  since the epoch; a day has 86400000000 microseconds.\<close>

definition CAST_AS_DATE :: "int \<Rightarrow> int" where
  "CAST_AS_DATE ts = ts div 86400000000"

text \<open>Adding a row to the groups built so far: to the group of its key if there is
  one, as a new group otherwise.\<close>

fun group_insert :: "'k \<Rightarrow> 'r \<Rightarrow> ('k \<times> 'r list) list \<Rightarrow> ('k \<times> 'r list) list" where
  "group_insert k r [] = [(k, [r])]"
| "group_insert k r ((k', g) # gs) =
     (if k = k' then (k', g @ [r]) # gs else (k', g) # group_insert k r gs)"

definition GROUP_BY :: "('r \<Rightarrow> 'k) \<Rightarrow> 'r list \<Rightarrow> ('k \<times> 'r list) list" where
  "GROUP_BY key rows = foldl (\<lambda>gs r. group_insert (key r) r gs) [] rows"

definition SUM_agg :: "('r \<Rightarrow> 'a::monoid_add) \<Rightarrow> 'r list \<Rightarrow> 'a" where
  "SUM_agg f g = foldl (\<lambda>acc r. acc + f r) 0 g"

definition COUNT_STAR :: "'r list \<Rightarrow> nat" where
  "COUNT_STAR g = length g"

definition COUNT_DISTINCT :: "('r \<Rightarrow> 'a) \<Rightarrow> 'r list \<Rightarrow> nat" where
  "COUNT_DISTINCT f g = length (remdups (map f g))"

definition AVG :: "('r \<Rightarrow> rat) \<Rightarrow> 'r list \<Rightarrow> rat" where
  "AVG f g = SUM_agg f g / of_nat (COUNT_STAR g)"

text \<open>DuckDB's \<^verbatim>\<open>ROUND(x, d)\<close>: to \<^verbatim>\<open>d\<close> decimals, a tie going away from zero.\<close>

definition ROUND :: "rat \<Rightarrow> nat \<Rightarrow> rat" where
  "ROUND x d = (let y = x * 10 ^ d in
     (if 0 \<le> y then of_int \<lfloor>y + 1 / 2\<rfloor> else - of_int \<lfloor>- y + 1 / 2\<rfloor>) / 10 ^ d)"

definition ORDER_BY :: "('r \<Rightarrow> 'k::linorder) \<Rightarrow> 'r list \<Rightarrow> 'r list" where
  "ORDER_BY key rows = sort_key key rows"

record daily_sales =
  sale_date :: int
  total_revenue :: rat
  number_of_orders :: nat
  average_order_value :: rat

record category_performance =
  group_product_category :: string
  group_store_location :: string
  transactions_count :: nat
  total_items_sold :: int
  avg_item_price :: rat

text \<open>\<^verbatim>\<open>quantity * price_per_item\<close>, the BIGINT cast to DOUBLE.\<close>

definition revenue :: "transaction \<Rightarrow> rat" where
  "revenue r = of_int (quantity r) * price_per_item r"

text \<open>Query 1, lines 116 to 125.\<close>

definition daily_sales_query :: "transaction list \<Rightarrow> daily_sales list" where
  "daily_sales_query t =
     ORDER_BY sale_date
       (map (\<lambda>(d, g).
              \<lparr>sale_date = d,
               total_revenue = SUM_agg revenue g,
               number_of_orders = COUNT_DISTINCT transaction_id g,
               average_order_value = AVG revenue g\<rparr>)
          (GROUP_BY (\<lambda>r. CAST_AS_DATE (transaction_date r)) t))"

text \<open>Query 2, lines 128 to 137. It has no ORDER BY: the rows come in the order the
  groups were built, which DuckDB does not promise and no statement below uses.\<close>

definition category_performance_query :: "transaction list \<Rightarrow> category_performance list" where
  "category_performance_query t =
     map (\<lambda>((c, l), g).
           \<lparr>group_product_category = c,
            group_store_location = l,
            transactions_count = COUNT_STAR g,
            total_items_sold = SUM_agg quantity g,
            avg_item_price = ROUND (AVG price_per_item g) 2\<rparr>)
       (GROUP_BY (\<lambda>r. (product_category r, store_location r)) t)"



text \<open>\<^verbatim>\<open>fetchdf()\<close> on the result of each query: DATE becomes a datetime64 column
  (here in microseconds), DOUBLE float64, BIGINT int64, VARCHAR object, and the
  HUGEINT of \<^verbatim>\<open>SUM(quantity)\<close> float64.\<close>

definition fetchdf_daily_sales :: "daily_sales list \<Rightarrow> dataframe" where
  "fetchdf_daily_sales rows =
     \<lparr>index_length = length rows,
      columns =
        [\<lparr>name = ''sale_date'', dtype = Datetime64,
          vals = map (\<lambda>r. Some (TimeV (sale_date r * 86400000000))) rows\<rparr>,
         \<lparr>name = ''total_revenue'', dtype = Float64,
          vals = map (\<lambda>r. Some (FloatV (total_revenue r))) rows\<rparr>,
         \<lparr>name = ''number_of_orders'', dtype = Int64,
          vals = map (\<lambda>r. Some (IntV (int (number_of_orders r)))) rows\<rparr>,
         \<lparr>name = ''average_order_value'', dtype = Float64,
          vals = map (\<lambda>r. Some (FloatV (average_order_value r))) rows\<rparr>]\<rparr>"

definition fetchdf_category_performance :: "category_performance list \<Rightarrow> dataframe" where
  "fetchdf_category_performance rows =
     \<lparr>index_length = length rows,
      columns =
        [\<lparr>name = ''product_category'', dtype = Object,
          vals = map (\<lambda>r. Some (StrV (group_product_category r))) rows\<rparr>,
         \<lparr>name = ''store_location'', dtype = Object,
          vals = map (\<lambda>r. Some (StrV (group_store_location r))) rows\<rparr>,
         \<lparr>name = ''transactions_count'', dtype = Int64,
          vals = map (\<lambda>r. Some (IntV (int (transactions_count r)))) rows\<rparr>,
         \<lparr>name = ''total_items_sold'', dtype = Float64,
          vals = map (\<lambda>r. Some (FloatV (of_int (total_items_sold r)))) rows\<rparr>,
         \<lparr>name = ''avg_item_price'', dtype = Float64,
          vals = map (\<lambda>r. Some (FloatV (avg_item_price r))) rows\<rparr>]\<rparr>"

definition shape :: "dataframe \<Rightarrow> nat \<times> nat" where
  "shape df = (index_length df, length (columns df))"

text \<open>Python's \<^verbatim>\<open>str\<close> of a pair of numbers.\<close>

definition str_shape :: "nat \<times> nat \<Rightarrow> string" where
  "str_shape p = ''('' @ str_nat (fst p) @ '', '' @ str_nat (snd p) @ '')''"

text \<open>\<^verbatim>\<open>load_data_with_duckdb\<close>, lines 18 to 24: \<^verbatim>\<open>sql_query\<close> is the name of the query
  for the trace, and \<^verbatim>\<open>df\<close> what \<^verbatim>\<open>db_connection.execute(sql_query).fetchdf()\<close>
  returns.\<close>

definition load_data_with_duckdb :: "string \<Rightarrow> dataframe \<Rightarrow> event list \<times> dataframe" where
  "load_data_with_duckdb sql_query df =
     ([Print ''Executing query with DuckDB...'',
       Execute sql_query,
       Print (''Data loaded successfully. Shape: '' @ str_shape (shape df))],
      df)"

section \<open>The Report Stage (automated\_exploratory\_analysis)\<close>

definition np_number :: string where
  "np_number = ''number''"

text \<open>Whether a column type is selected by one entry of the \<^verbatim>\<open>include\<close> argument of
  \<^verbatim>\<open>select_dtypes\<close>: \<^verbatim>\<open>np.number\<close> selects the integer and floating types and not
  bool, and each of the names selects its own type.\<close>

definition dtype_selected :: "string \<Rightarrow> dtype \<Rightarrow> bool" where
  "dtype_selected sel d =
     (if sel = np_number then d = Int64 \<or> d = Float64
      else if sel = ''object'' then d = Object
      else if sel = ''category'' then d = Category
      else if sel = ''bool'' then d = Bool
      else False)"

definition select_dtypes :: "string list \<Rightarrow> dataframe \<Rightarrow> column list" where
  "select_dtypes include df =
     filter (\<lambda>c. list_ex (\<lambda>sel. dtype_selected sel (dtype c)) include) (columns df)"

definition non_null :: "column \<Rightarrow> val list" where
  "non_null c = concat (map (\<lambda>v. case v of None \<Rightarrow> [] | Some x \<Rightarrow> [x]) (vals c))"

text \<open>\<^verbatim>\<open>df.info()\<close>: name, non-null count and type of every column.\<close>

definition info :: "dataframe \<Rightarrow> (string \<times> nat \<times> dtype) list" where
  "info df = map (\<lambda>c. (name c, length (non_null c), dtype c)) (columns df)"

text \<open>\<^verbatim>\<open>df.describe(include=np.number)\<close>: one column of statistics for every numerical
  column. With no numerical column pandas has nothing to concatenate and raises
  ValueError.\<close>

definition describe_number :: "dataframe \<Rightarrow> py_error + (string \<times> nat) list" where
  "describe_number df =
     (let cs = select_dtypes [np_number] df in
      if cs = [] then Inl ValueError
      else Inr (map (\<lambda>c. (name c, length (non_null c))) cs))"

text \<open>\<^verbatim>\<open>df[cols].describe()\<close> for columns of objects and categories: count and
  number of distinct values of each (top value and its frequency are not modelled).\<close>

definition describe_categorical :: "column list \<Rightarrow> (string \<times> nat \<times> nat) list" where
  "describe_categorical cs =
     map (\<lambda>c. (name c, length (non_null c), length (remdups (non_null c)))) cs"

text \<open>\<^verbatim>\<open>df.isnull().sum()\<close>: the number of nulls of every column.\<close>

definition isnull_sum :: "dataframe \<Rightarrow> (string \<times> nat) list" where
  "isnull_sum df = map (\<lambda>c. (name c, length (filter (\<lambda>v. v = None) (vals c)))) (columns df)"

definition numerical_cols :: "dataframe \<Rightarrow> string list" where
  "numerical_cols df = map name (select_dtypes [np_number] df)"

definition categorical_cols :: "dataframe \<Rightarrow> string list" where
  "categorical_cols df = map name (select_dtypes [''object'', ''category'', ''bool''] df)"

text \<open>The column of the table with a given name (\<^verbatim>\<open>df[col]\<close>); the names the
  report asks for are names of the table.\<close>

definition column_named :: "dataframe \<Rightarrow> string \<Rightarrow> column option" where
  "column_named df col = find (\<lambda>c. name c = col) (columns df)"

text \<open>The number of bars of the count plot of a column: its distinct non-null
  values, at most 20 (\<^verbatim>\<open>value_counts().nlargest(20)\<close>).\<close>

definition top_cats :: "dataframe \<Rightarrow> string \<Rightarrow> nat" where
  "top_cats df col =
     (case column_named df col of
        None \<Rightarrow> 0
      | Some c \<Rightarrow> min 20 (length (remdups (non_null c))))"

definition report_file :: "string \<Rightarrow> string \<Rightarrow> string" where
  "report_file report_title suffix = os_path_join OUTPUT_DIR (report_title @ suffix)"

text \<open>
  \<^verbatim>\<open>automated_exploratory_analysis\<close>, lines 27 to 101: the events of one call and
  how it ends. The summary file is opened before anything is computed, so when
  line 46 raises, what had been written until then is on disk and nothing else
  follows. Rendering a chart is taken to succeed.
\<close>

definition automated_exploratory_analysis :: "dataframe \<Rightarrow> string \<Rightarrow> event list \<times> outcome" where
  "automated_exploratory_analysis df report_title =
     (let started =
            [Print (CHR 0x0A # ''--- Generating EDA Report for: '' @ report_title @ '' ---''),
             Print (CHR 0x0A # ''1. Basic Information'')];
          summary_txt = report_file report_title ''_summary.txt'';
          basic =
            [ReportTitle report_title,
             ShapeOfDataset (fst (shape df)) (snd (shape df)),
             DataTypesAndNonNull (info df),
             NumericalHeading]
      in case describe_number df of
           Inl e \<Rightarrow> (started @ [Write summary_txt (SummaryText basic)], Raised e)
         | Inr numerical \<Rightarrow>
             (let categorical_cols_for_summary = select_dtypes [''object'', ''category''] df;
                  categorical =
                    (if categorical_cols_for_summary \<noteq> []
                     then CategoricalStatistics (describe_categorical categorical_cols_for_summary)
                     else NoCategoricalColumns);
                  summary =
                    Write summary_txt
                      (SummaryText (basic @ [NumericalStatistics numerical, CategoricalHeading, categorical]));
                  missing_values = filter (\<lambda>(col, n). 0 < n) (isnull_sum df);
                  missing =
                    (if missing_values \<noteq> []
                     then [Write (report_file report_title ''_missing_values.png'')
                             (Png (MissingValuesBar missing_values))]
                     else []);
                  numerical_plots =
                    map (\<lambda>col. Write (report_file report_title (''_univariate_'' @ col @ ''.png''))
                                 (Png (HistogramBoxplot col)))
                      (numerical_cols df);
                  categorical_plots =
                    map (\<lambda>col. Write (report_file report_title (''_univariate_'' @ col @ ''.png''))
                                 (Png (CountPlot col (top_cats df col))))
                      (categorical_cols df);
                  correlation =
                    (if 1 < length (numerical_cols df)
                     then [Write (report_file report_title ''_correlation_matrix.png'')
                             (Png (CorrelationHeatmap (numerical_cols df) ''.2f''))]
                     else [])
              in (started @ [summary] @ missing @ numerical_plots @ categorical_plots @ correlation @
                  [Print (''--- EDA Report for '' @ report_title @ '' Complete. Files saved to '' @
                          quoted OUTPUT_DIR @ ''. ---'')],
                  Finished)))"


fun is_missing_values :: "event \<Rightarrow> bool" where
  "is_missing_values (Write p (Png (MissingValuesBar counts))) = True"
| "is_missing_values e = False"


fun is_count_plot :: "event \<Rightarrow> bool" where
  "is_count_plot (Write p (Png (CountPlot col bars))) = True"
| "is_count_plot e = False"



text \<open>The items of the summary files among some events, and the columns that the
  two blocks of descriptive statistics of an item list.\<close>

fun summary_of :: "event \<Rightarrow> summary_item list" where
  "summary_of (Write p (SummaryText items)) = items"
| "summary_of e = []"



definition summary_items :: "event list \<Rightarrow> summary_item list" where
  "summary_items es = concat (map summary_of es)"

text \<open>Whether any cell of the table is null.\<close>

definition has_null :: "dataframe \<Rightarrow> bool" where
  "has_null df = list_ex (\<lambda>c. list_ex (\<lambda>v. v = None) (vals c)) (columns df)"

text \<open>Three small tables used to instantiate the statements about the report: one
  with a numerical and a boolean column and no null, one with a single column of
  strings that has a null, and one with a date, a numerical and a string column and
  no null.\<close>

definition flags_table :: dataframe where
  "flags_table =
     \<lparr>index_length = 3,
      columns =
        [\<lparr>name = ''amount'', dtype = Int64,
          vals = [Some (IntV 4), Some (IntV 7), Some (IntV 4)]\<rparr>,
         \<lparr>name = ''returned'', dtype = Bool,
          vals = [Some (BoolV True), Some (BoolV False), Some (BoolV True)]\<rparr>]\<rparr>"

definition cities_table :: dataframe where
  "cities_table =
     \<lparr>index_length = 2,
      columns = [\<lparr>name = ''city'', dtype = Object, vals = [Some (StrV ''Oslo''), None]\<rparr>]\<rparr>"


section \<open>The report script (the main block of automated\_eda\_duckdb.py)\<close>

text \<open>\<^verbatim>\<open>os.makedirs(p, exist_ok=True)\<close>, line 15: creates the directory unless it is
  there; a file of another kind under the name is a FileExistsError.\<close>

definition os_makedirs :: "string \<Rightarrow> filesystem \<Rightarrow> py_error + event list" where
  "os_makedirs p fs =
     (case fs p of
        None \<Rightarrow> Inr [MakeDirs p]
      | Some f \<Rightarrow> if f = Directory then Inr [] else Inl FileExistsError)"

text \<open>\<^verbatim>\<open>pd.to_datetime\<close> on a column: its type becomes datetime64.\<close>

definition pd_to_datetime :: "column \<Rightarrow> column" where
  "pd_to_datetime c = c\<lparr>dtype := Datetime64\<rparr>"

text \<open>Lines 147 and 148.\<close>

definition convert_sale_date :: "dataframe \<Rightarrow> dataframe" where
  "convert_sale_date df =
     (if ''sale_date'' \<in> set (map name (columns df))
      then df\<lparr>columns := map (\<lambda>c. if name c = ''sale_date'' then pd_to_datetime c else c) (columns df)\<rparr>
      else df)"

text \<open>The table the first report is made of, and the one of the second.\<close>

definition df_daily_sales :: "transaction list \<Rightarrow> dataframe" where
  "df_daily_sales t = convert_sale_date (fetchdf_daily_sales (daily_sales_query t))"

definition df_category :: "transaction list \<Rightarrow> dataframe" where
  "df_category t = fetchdf_category_performance (category_performance_query t)"

text \<open>Lines 109 to 156, reached when the data file exists: \<^verbatim>\<open>t\<close> are its rows.\<close>

definition run_reports :: "transaction list \<Rightarrow> event list \<times> outcome" where
  "run_reports t =
     (let (loaded1, df1) = load_data_with_duckdb ''daily_sales_query'' (fetchdf_daily_sales (daily_sales_query t));
          (report1, end1) = automated_exploratory_analysis (convert_sale_date df1) ''duckdb_daily_sales''
      in if end1 \<noteq> Finished then (Connect # loaded1 @ report1, end1)
         else
           (let (loaded2, df2) = load_data_with_duckdb ''category_performance_query'' (df_category t);
                (report2, end2) = automated_exploratory_analysis df2 ''duckdb_category_performance''
            in if end2 \<noteq> Finished then (Connect # loaded1 @ report1 @ loaded2 @ report2, end2)
               else (Connect # loaded1 @ report1 @ loaded2 @ report2 @ [Close], Finished)))"

text \<open>
  The script from its first line: the output directory is made when the module is
  loaded (line 15), then the main block checks for the data file. A data file that
  is not a Parquet table makes the first query fail.
\<close>

definition main :: "filesystem \<Rightarrow> event list \<times> outcome" where
  "main fs =
     (case os_makedirs OUTPUT_DIR fs of
        Inl e \<Rightarrow> ([], Raised e)
      | Inr made \<Rightarrow>
          if \<not> os_path_exists DATA_FILE (apply_events fs made)
          then (made @
                [Print (''Error: Data file '' @ quoted DATA_FILE @ '' not found.''),
                 Print (''Please run '' @ quoted ''python generate_dummy_data.py'' @ '' first.'')],
                Exited)
          else (case apply_events fs made DATA_FILE of
                  Some (Parquet t) \<Rightarrow> (made @ fst (run_reports t), snd (run_reports t))
                | _ \<Rightarrow> (made @ [Connect, Print ''Executing query with DuckDB...''], Raised IOError)))"

section \<open>Verification: the Dataset Generator\<close>

lemma generate_existing:
  "os_path_exists FILENAME fs \<Longrightarrow>
     generate_dummy_data n s fs =
       ([Print ''Generating a large dummy dataset...'',
         Print (quoted FILENAME @ '' already exists. Skipping generation.'')], Finished)"
  by (simp add: generate_dummy_data_def)

lemma exists_after_generate:
  assumes "library_calls n s"
  shows "os_path_exists FILENAME (after_generate n s fs)"
proof (cases "os_path_exists FILENAME fs")
  case True
  then show ?thesis
    by (simp add: after_generate_def generate_existing apply_events_def)
next
  case False
  from assms have "pd_DataFrame n s = Inr (map (data_row s) [0..<n])"
    by (simp add: pd_DataFrame_def library_calls_def np_random_randint_def
        np_random_uniform_def np_random_choice_def)
  with False show ?thesis
    by (simp add: after_generate_def generate_dummy_data_def apply_events_def os_path_exists_def)
qed

text \<open>
  C3. If the target file already exists, a run of the generator writes nothing and
  leaves the filesystem, hence the file and its row count, as it was; and after
  one run (whose library calls returned arrays of the requested size), a second
  run with any other random draws leaves the same filesystem as the first.
\<close>

theorem generator_idempotent:
  "(os_path_exists FILENAME fs \<longrightarrow>
      filter is_write (fst (generate_dummy_data n s fs)) = [] \<and>
      snd (generate_dummy_data n s fs) = Finished \<and>
      after_generate n s fs = fs \<and>
      row_count (after_generate n s fs) = row_count fs) \<and>
   (library_calls n s \<longrightarrow>
      after_generate n' s' (after_generate n s fs) = after_generate n s fs)"
proof -
  have once: "after_generate m t g = g" if "os_path_exists FILENAME g" for m t g
    using that by (simp add: after_generate_def generate_existing apply_events_def)
  have "filter is_write (fst (generate_dummy_data n s fs)) = []"
    and "snd (generate_dummy_data n s fs) = Finished"
    if "os_path_exists FILENAME fs"
    using that by (simp_all add: generate_existing)
  moreover have "after_generate n' s' (after_generate n s fs) = after_generate n s fs"
    if "library_calls n s"
    using that by (intro once exists_after_generate)
  ultimately show ?thesis
    using once by simp
qed

lemma library_calls_two_samples: "library_calls 2 two_samples"
  by (simp add: library_calls_def two_samples_def np_random_randint_def np_random_uniform_def
      np_random_choice_def store_locations_def product_categories_def)

theorem generator_idempotent_witness:
  "os_path_exists FILENAME [FILENAME \<mapsto> Parquet []] \<and>
   filter is_write (fst (generate_dummy_data 2 two_samples [FILENAME \<mapsto> Parquet []])) = [] \<and>
   after_generate 2 two_samples [FILENAME \<mapsto> Parquet []] = [FILENAME \<mapsto> Parquet []] \<and>
   row_count (after_generate 2 two_samples [FILENAME \<mapsto> Parquet []]) = Some 0 \<and>
   library_calls 2 two_samples \<and>
   after_generate 2 (two_samples\<lparr>randint_quantity := [2, 3]\<rparr>)
       (after_generate 2 two_samples Map.empty) =
     after_generate 2 two_samples Map.empty"
proof -
  have ex: "os_path_exists FILENAME [FILENAME \<mapsto> Parquet []]"
    by (simp add: os_path_exists_def)
  have rc: "row_count [FILENAME \<mapsto> Parquet []] = Some 0"
    by (simp add: row_count_def)
  show ?thesis
    using ex rc library_calls_two_samples
      generator_idempotent [of "[FILENAME \<mapsto> Parquet []]" 2 two_samples 2 two_samples]
      generator_idempotent [of Map.empty 2 two_samples 2 "two_samples\<lparr>randint_quantity := [2, 3]\<rparr>"]
    by simp
qed

subsection \<open>Rounding to two decimals\<close>







subsection \<open>The rows of the generated file\<close>






section \<open>Verification: the Query Stage\<close>

subsection \<open>Grouping and aggregates\<close>












subsection \<open>The daily-sales query\<close>










subsection \<open>The category-performance query\<close>





section \<open>Verification: the Report Stage\<close>

lemma describe_number_cases:
  "describe_number df =
     (if numerical_cols df = [] then Inl ValueError
      else Inr (map (\<lambda>c. (name c, length (non_null c))) (select_dtypes [np_number] df)))"
  by (simp add: describe_number_def numerical_cols_def Let_def)

lemma filter_map_none: "(\<And>x. \<not> P (f x)) \<Longrightarrow> filter P (map f xs) = []"
  by (induction xs) simp_all

lemmas report_unfold = automated_exploratory_analysis_def describe_number_cases Let_def


subsection \<open>Missing values\<close>

text \<open>The bar chart of missing values in a report that gets past the numerical
  statistics: exactly one if some cell is null, none otherwise.\<close>

lemma missing_values_empty:
  "filter (\<lambda>(col, n). 0 < n) (isnull_sum df) = [] \<longleftrightarrow> \<not> has_null df"
  by (auto simp: isnull_sum_def has_null_def filter_empty_conv list_ex_iff)

lemma missing_values_written:
  assumes "numerical_cols df \<noteq> []"
  shows "filter is_missing_values (fst (automated_exploratory_analysis df report_title)) =
     (if has_null df
      then [Write (report_file report_title ''_missing_values.png'')
              (Png (MissingValuesBar (filter (\<lambda>(col, n). 0 < n) (isnull_sum df))))]
      else [])"
  using assms by (simp add: report_unfold filter_map_none missing_values_empty)

text \<open>
  C6, at a table without numerical column. The table \<^verbatim>\<open>cities_table\<close> has one column
  of strings with a null in it. Line 46 raises ValueError, the report ends there
  with the unfinished summary file as its only output, and the missing-value
  analysis of lines 59 to 66 is never reached: no bar chart is written although a
  cell is null.
\<close>

theorem no_missing_values_chart_without_numerical_column:
  "has_null cities_table \<and>
   automated_exploratory_analysis cities_table ''cities'' =
     ([Print (CHR 0x0A # ''--- Generating EDA Report for: cities ---''),
       Print (CHR 0x0A # ''1. Basic Information''),
       Write ''eda_report_duckdb/cities_summary.txt''
         (SummaryText [ReportTitle ''cities'', ShapeOfDataset 2 1,
            DataTypesAndNonNull [(''city'', 1, Object)], NumericalHeading])],
      Raised ValueError) \<and>
   filter is_missing_values (fst (automated_exploratory_analysis cities_table ''cities'')) = []"
  by (simp add: automated_exploratory_analysis_def describe_number_def Let_def
      select_dtypes_def dtype_selected_def np_number_def has_null_def
      cities_table_def shape_def info_def non_null_def
      report_file_def os_path_join_def OUTPUT_DIR_def)

subsection \<open>One numerical and one categorical column\<close>



subsection \<open>Column classification\<close>














subsection \<open>Boolean columns\<close>

text \<open>
  C4, at a table whose only non-numerical column is boolean. For \<^verbatim>\<open>flags_table\<close>
  line 70 classifies the boolean column \<^verbatim>\<open>returned\<close> as categorical and the report
  writes its count plot, but line 51 selects only objects and categories for the
  summary, so the summary has the notice that there are no categorical columns and
  no statistics of \<^verbatim>\<open>returned\<close>.
\<close>

theorem boolean_column_not_in_summary:
  "categorical_cols flags_table = [''returned''] \<and>
   filter is_count_plot (fst (automated_exploratory_analysis flags_table ''flags'')) =
     [Write ''eda_report_duckdb/flags_univariate_returned.png'' (Png (CountPlot ''returned'' 2))] \<and>
   summary_items (fst (automated_exploratory_analysis flags_table ''flags'')) =
     [ReportTitle ''flags'', ShapeOfDataset 3 2,
      DataTypesAndNonNull [(''amount'', 3, Int64), (''returned'', 3, Bool)],
      NumericalHeading, NumericalStatistics [(''amount'', 3)],
      CategoricalHeading, NoCategoricalColumns] \<and>
   snd (automated_exploratory_analysis flags_table ''flags'') = Finished"
  by (simp add: automated_exploratory_analysis_def describe_number_def Let_def
      categorical_cols_def numerical_cols_def select_dtypes_def dtype_selected_def np_number_def
      flags_table_def summary_items_def shape_def info_def non_null_def isnull_sum_def
      top_cats_def column_named_def report_file_def os_path_join_def OUTPUT_DIR_def)

section \<open>Verification: the report script\<close>

text \<open>When the data file is a Parquet table and the output directory can be made,
  the run executes the two queries, one after the other, and finishes: both tables
  have numerical columns, so neither report stops at line 46.\<close>

lemma numerical_cols_df_daily_sales:
  "numerical_cols (df_daily_sales t) = [''total_revenue'', ''number_of_orders'', ''average_order_value'']"
  by (simp add: numerical_cols_def select_dtypes_def df_daily_sales_def convert_sale_date_def
      fetchdf_daily_sales_def pd_to_datetime_def dtype_selected_def np_number_def)

lemma numerical_cols_df_category:
  "numerical_cols (df_category t) = [''transactions_count'', ''total_items_sold'', ''avg_item_price'']"
  by (simp add: numerical_cols_def select_dtypes_def df_category_def
      fetchdf_category_performance_def dtype_selected_def np_number_def)

lemma report_finishes:
  "numerical_cols df \<noteq> [] \<Longrightarrow> snd (automated_exploratory_analysis df report_title) = Finished"
  by (simp add: automated_exploratory_analysis_def describe_number_cases Let_def)

lemma report_no_execute:
  "filter is_execute (fst (automated_exploratory_analysis df report_title)) = []"
  by (simp add: automated_exploratory_analysis_def describe_number_cases Let_def filter_map_none)

lemma run_reports_finishes:
  "snd (run_reports t) = Finished \<and>
   filter is_execute (fst (run_reports t)) =
     [Execute ''daily_sales_query'', Execute ''category_performance_query'']"
proof -
  have 1: "snd (automated_exploratory_analysis (df_daily_sales t) ''duckdb_daily_sales'') = Finished"
    by (simp add: report_finishes numerical_cols_df_daily_sales)
  have 2: "snd (automated_exploratory_analysis (df_category t) ''duckdb_category_performance'') = Finished"
    by (simp add: report_finishes numerical_cols_df_category)
  show ?thesis
    using 1 2
    by (simp add: run_reports_def load_data_with_duckdb_def case_prod_unfold Let_def
        report_no_execute df_daily_sales_def)
qed

lemma main_with_data_file:
  assumes "fs DATA_FILE = Some (Parquet t)" and "fs OUTPUT_DIR = None \<or> fs OUTPUT_DIR = Some Directory"
  shows "snd (main fs) = Finished \<and>
   filter is_execute (fst (main fs)) =
     [Execute ''daily_sales_query'', Execute ''category_performance_query'']"
  using assms run_reports_finishes [of t]
  by (auto simp: main_def os_makedirs_def os_path_exists_def apply_events_def
      DATA_FILE_def OUTPUT_DIR_def split: option.splits)



end
